theory Spec2Isabelle
  imports Complex_Main
begin

section \<open>Numbers\<close>

text \<open>
  Pixel coordinates, timestamps and progress values are JavaScript numbers. A finite number
  is modelled as a \<^typ>\<open>real\<close> (rounding of the 64-bit representation is not modelled, and
  a zero carries no sign). Where the program divides, the quotient can be infinite or
  not-a-number; such results are values of \<open>jsnum\<close>.
\<close>

datatype jsnum = Fin real | PosInf | NegInf | NaN

text \<open>\<open>a / b\<close> on two finite numbers.\<close>

definition js_div :: "real \<Rightarrow> real \<Rightarrow> jsnum" where
  "js_div a b =
     (if b = 0 then (if a = 0 then NaN else if 0 < a then PosInf else NegInf)
      else Fin (a / b))"

text \<open>\<open>a * k\<close> with a finite right factor.\<close>

fun js_mul :: "jsnum \<Rightarrow> real \<Rightarrow> jsnum" where
  "js_mul (Fin a) k = Fin (a * k)"
| "js_mul PosInf k = (if k = 0 then NaN else if 0 < k then PosInf else NegInf)"
| "js_mul NegInf k = (if k = 0 then NaN else if 0 < k then NegInf else PosInf)"
| "js_mul NaN k = NaN"

text \<open>\<open>Math.round\<close>: the nearest integer, a tie going up.\<close>

fun js_round :: "jsnum \<Rightarrow> jsnum" where
  "js_round (Fin a) = Fin (of_int \<lfloor>a + 1 / 2\<rfloor>)"
| "js_round PosInf = PosInf"
| "js_round NegInf = NegInf"
| "js_round NaN = NaN"

text \<open>\<open>Math.max\<close> and \<open>Math.min\<close> with a finite second argument.\<close>

fun js_max :: "jsnum \<Rightarrow> real \<Rightarrow> jsnum" where
  "js_max (Fin a) k = Fin (max a k)"
| "js_max PosInf k = PosInf"
| "js_max NegInf k = Fin k"
| "js_max NaN k = NaN"

fun js_min :: "jsnum \<Rightarrow> real \<Rightarrow> jsnum" where
  "js_min (Fin a) k = Fin (min a k)"
| "js_min PosInf k = Fin k"
| "js_min NegInf k = NegInf"
| "js_min NaN k = NaN"

text \<open>
  \<open>a !== b\<close> between the content of a cell that starts out \<open>undefined\<close> (\<open>None\<close>) and
  a number: not-a-number differs from everything, itself included.
\<close>

fun js_strict_neq :: "jsnum option \<Rightarrow> jsnum \<Rightarrow> bool" where
  "js_strict_neq None b = True"
| "js_strict_neq (Some NaN) b = True"
| "js_strict_neq (Some a) NaN = True"
| "js_strict_neq (Some a) b = (a \<noteq> b)"

text \<open>\<open>xs[j]\<close>: the element at an integral index inside the array, \<open>undefined\<close> otherwise.\<close>

fun js_index :: "'a list \<Rightarrow> jsnum \<Rightarrow> 'a option" where
  "js_index xs (Fin r) =
     (if of_int \<lfloor>r\<rfloor> = r \<and> 0 \<le> r \<and> nat \<lfloor>r\<rfloor> < length xs then Some (xs ! nat \<lfloor>r\<rfloor>) else None)"
| "js_index xs PosInf = None"
| "js_index xs NegInf = None"
| "js_index xs NaN = None"

text \<open>\<open>a ?? b\<close>.\<close>

fun orElse :: "'a option \<Rightarrow> 'a \<Rightarrow> 'a" where
  "orElse None d = d"
| "orElse (Some v) d = v"

datatype error = TypeError

section \<open>Paths of the drawing library\<close>

text \<open>
  An \<open>SkPath\<close> is held as the sequence of its commands, which is also what \<open>toCmds\<close>
  returns. The program draws with move-to and cubic-to; the fill curve adds straight
  segments.
\<close>

datatype PathCommand =
    MoveTo real real
  | LineTo real real
  | CubicTo real real real real real real

type_synonym SkPath = "PathCommand list"

definition toCmds :: "SkPath \<Rightarrow> PathCommand list" where
  "toCmds path = path"

definition moveTo :: "SkPath \<Rightarrow> real \<Rightarrow> real \<Rightarrow> SkPath" where
  "moveTo path x y = path @ [MoveTo x y]"

definition cubicTo :: "SkPath \<Rightarrow> real \<Rightarrow> real \<Rightarrow> real \<Rightarrow> real \<Rightarrow> real \<Rightarrow> real \<Rightarrow> SkPath" where
  "cubicTo path x1 y1 x2 y2 x3 y3 = path @ [CubicTo x1 y1 x2 y2 x3 y3]"

text \<open>
  Modelled from the spec: \<open>SkPath.isInterpolatable\<close> and \<open>SkPath.interpolate\<close> belong to the
  drawing library, which is not under src. Two curves are compatible when they have the
  same segment count and the same segment types. \<open>this.interpolate(ending, weight)\<close>
  answers null for incompatible curves and otherwise the curve whose every coordinate
  is \<open>this * weight + ending * (1 - weight)\<close>, so that weight 0 is \<open>ending\<close> and weight 1
  is \<open>this\<close>.
\<close>

fun sameVerb :: "PathCommand \<Rightarrow> PathCommand \<Rightarrow> bool" where
  "sameVerb (MoveTo _ _) (MoveTo _ _) = True"
| "sameVerb (LineTo _ _) (LineTo _ _) = True"
| "sameVerb (CubicTo _ _ _ _ _ _) (CubicTo _ _ _ _ _ _) = True"
| "sameVerb _ _ = False"

fun isInterpolatable :: "SkPath \<Rightarrow> SkPath \<Rightarrow> bool" where
  "isInterpolatable [] [] = True"
| "isInterpolatable (a # as) (b # bs) = (sameVerb a b \<and> isInterpolatable as bs)"
| "isInterpolatable _ _ = False"

definition weighted :: "real \<Rightarrow> real \<Rightarrow> real \<Rightarrow> real" where
  "weighted weight p e = p * weight + e * (1 - weight)"

fun mixCommand :: "real \<Rightarrow> PathCommand \<Rightarrow> PathCommand \<Rightarrow> PathCommand" where
  "mixCommand w (MoveTo x y) (MoveTo ex ey) = MoveTo (weighted w x ex) (weighted w y ey)"
| "mixCommand w (LineTo x y) (LineTo ex ey) = LineTo (weighted w x ex) (weighted w y ey)"
| "mixCommand w (CubicTo x1 y1 x2 y2 x3 y3) (CubicTo ex1 ey1 ex2 ey2 ex3 ey3) =
     CubicTo (weighted w x1 ex1) (weighted w y1 ey1) (weighted w x2 ex2) (weighted w y2 ey2)
       (weighted w x3 ex3) (weighted w y3 ey3)"
| "mixCommand w c _ = c"

fun mixCommands :: "real \<Rightarrow> SkPath \<Rightarrow> SkPath \<Rightarrow> SkPath" where
  "mixCommands w (a # as) (b # bs) = mixCommand w a b # mixCommands w as bs"
| "mixCommands w _ _ = []"

definition interpolate :: "SkPath \<Rightarrow> SkPath \<Rightarrow> real \<Rightarrow> SkPath option" where
  "interpolate this ending weight =
     (if isInterpolatable this ending then Some (mixCommands weight this ending) else None)"

section \<open>The animated line graph\<close>

subsection \<open>The placeholder curve\<close>

text \<open>
  \<open>straightLine\<close>: a move to the left edge at half the canvas height, then one cubic
  segment for every second pixel column \<open>i\<close> with \<open>i < width - 1\<close>. Width and height are
  the rounded layout sizes.
\<close>

function straightLine_loop :: "int \<Rightarrow> int \<Rightarrow> int \<Rightarrow> SkPath \<Rightarrow> SkPath" where
  "straightLine_loop i width height path =
     (if i < width - 1
      then (let x = real_of_int i; y = real_of_int height / 2
            in straightLine_loop (i + 2) width height (cubicTo path x y x y x y))
      else path)"
  by pat_completeness auto
termination
  by (relation "measure (\<lambda>(i, width, height, path). nat (width - 1 - i))") auto

declare straightLine_loop.simps [simp del]

definition straightLine :: "int \<Rightarrow> int \<Rightarrow> SkPath" where
  "straightLine width height =
     straightLine_loop 0 width height (moveTo [] 0 (real_of_int height / 2))"

subsection \<open>Curve pairs and the interpolated curves\<close>

record CurvePair =
  cp_from :: "SkPath option"
  cp_to :: "SkPath option"

text \<open>
  The computed value behind every drawn stroke, and behind the fill: both ends of the
  pair, each replaced by the placeholder when absent, interpolated at the progress.
  \<open>straight\<close> is the \<open>straightLine\<close> the callback holds. A stroke's value names its
  progress cell as its only dependency and is made once, in the first render, where
  width and height are still 0: its callback holds the \<open>straightLine\<close> of that render, a
  lone move to the origin, whatever the canvas measures later.
\<close>

definition paths_value :: "SkPath \<Rightarrow> CurvePair \<Rightarrow> real \<Rightarrow> SkPath option" where
  "paths_value straight current progress =
     (let from = orElse (cp_from current) straight;
          to = orElse (cp_to current) straight
      in interpolate to from progress)"

definition gradientPath_value :: "SkPath \<Rightarrow> CurvePair \<Rightarrow> real list \<Rightarrow> (error + SkPath option)" where
  "gradientPath_value straight current interpolateProgresses =
     (let from = orElse (cp_from current) straight;
          to = orElse (cp_to current) straight
      in case interpolateProgresses of
           [] \<Rightarrow> Inl TypeError
         | progress # _ \<Rightarrow> Inr (interpolate to from progress))"

subsection \<open>What a render holds\<close>

record GraphPoint =
  date :: real
  val :: real

record GraphXRange =
  xmin :: real
  xmax :: real

record GraphYRange =
  ymin :: real
  ymax :: real

record GraphPathRange =
  x_range :: GraphXRange
  y_range :: GraphYRange

record paddings =
  horizontalPadding :: real
  verticalPadding :: real

text \<open>The argument of the Path Builder, one per series.\<close>

record GraphPathConfig = paddings +
  pointsInRange :: "GraphPoint list"
  pathRange :: GraphPathRange
  canvasHeight :: int
  canvasWidth :: int

text \<open>
  The values one render of the component computes before its effects run: the measured
  size, the paddings, and per series the filtered points and the resolved range. The
  progress cells are driven by the spring animation, outside the component, and are
  read here.
\<close>

record render = paddings +
  width :: int
  height :: int
  pointsInRanges :: "GraphPoint list list"
  pathRanges :: "GraphPathRange list"
  shouldFillGradient :: bool
  interpolateProgresses :: "real list"

text \<open>
  The cells the rebuild effect writes. Each of \<open>pathsValues\<close>, \<open>commands\<close> and
  \<open>commandsChanged\<close> is made with one cell per series, as \<open>pointsInRanges\<close>,
  \<open>pathRanges\<close> and \<open>interpolateProgresses\<close> are. \<open>gradientPaths\<close> is the single cell
  of the fill's pair; \<open>gradientPaths_0\<close> is the property \<open>0\<close> that the effect sets on that
  cell object.
\<close>

record cells =
  pathsValues :: "CurvePair list"
  gradientPaths :: CurvePair
  gradientPaths_0 :: "SkPath option"
  commands :: "PathCommand list list"
  commandsChanged :: "jsnum list"

definition well_formed :: "render \<Rightarrow> cells \<Rightarrow> bool" where
  "well_formed r c =
     (length (pathRanges r) = length (pointsInRanges r) \<and>
      length (interpolateProgresses r) = length (pointsInRanges r) \<and>
      length (pathsValues c) = length (pointsInRanges r) \<and>
      length (commands c) = length (pointsInRanges r) \<and>
      length (commandsChanged c) = length (pointsInRanges r))"

subsection \<open>The rebuild effect\<close>

text \<open>
  \<open>Array(n).fill(0)\<close>: a slot of \<open>paths\<close> holds the number 0 until a curve is put
  in it.
\<close>

datatype path_slot = Unbuilt | Built SkPath

definition createGraphPathProps :: "render \<Rightarrow> GraphPathConfig list" where
  "createGraphPathProps r =
     map (\<lambda>(points, range).
           \<lparr> horizontalPadding = horizontalPadding r, verticalPadding = verticalPadding r,
             pointsInRange = points, pathRange = range,
             canvasHeight = height r, canvasWidth = width r \<rparr>)
       (zip (pointsInRanges r) (pathRanges r))"

text \<open>
  The Path Builder (\<open>createGraphPath\<close>, \<open>createGraphPathWithGradient\<close>) is not under src:
  both are parameters. With a fill, the effect builds the curves of the first series
  only and leaves every other slot of \<open>paths\<close> as it was made; the fresh fill curve goes
  to the property \<open>0\<close> of the \<open>gradientPaths\<close> cell. With no series at all,
  \<open>createGraphPathProps[0]\<close> is undefined and there is no \<open>commands[0]\<close>, and the effect
  ends in a TypeError.
\<close>

definition buildPaths ::
  "(GraphPathConfig \<Rightarrow> SkPath) \<Rightarrow> (GraphPathConfig \<Rightarrow> SkPath \<times> SkPath) \<Rightarrow> render \<Rightarrow> cells
     \<Rightarrow> (error \<times> cells) + (path_slot list \<times> cells)" where
  "buildPaths createGraphPath createGraphPathWithGradient r c =
     (let paths = replicate (length (pointsInRanges r)) Unbuilt
      in if shouldFillGradient r
         then (case createGraphPathProps r of
                 [] \<Rightarrow> Inl (TypeError, c)
               | props0 # _ \<Rightarrow>
                   (let (pathNew, gradientPathNew) = createGraphPathWithGradient props0
                    in Inr (paths[0 := Built pathNew],
                            c\<lparr>gradientPaths_0 := Some gradientPathNew\<rparr>)))
         else Inr (map (\<lambda>props. Built (createGraphPath props)) (createGraphPathProps r), c))"

text \<open>
  \<open>commands[index].value = paths[index].toCmds()\<close>, series by series: a slot that holds
  no curve has no \<open>toCmds\<close>, and the call throws with the earlier cells already written.
\<close>

fun setCommands ::
  "path_slot list \<Rightarrow> PathCommand list list
     \<Rightarrow> (error \<times> PathCommand list list) + PathCommand list list" where
  "setCommands [] cs = Inr cs"
| "setCommands (Unbuilt # paths) cs = Inl (TypeError, cs)"
| "setCommands (Built path # paths) [] = Inl (TypeError, [])"
| "setCommands (Built path # paths) (c # cs) =
     (case setCommands paths cs of
        Inl (e, cs') \<Rightarrow> Inl (e, toCmds path # cs')
      | Inr cs' \<Rightarrow> Inr (toCmds path # cs'))"

text \<open>
  The curve a new pair starts from: the previous pair's \<open>to\<close> (the placeholder when
  absent), replaced by the interpolation towards it from the previous \<open>from\<close> when that
  is present and the progress is below 1, unless the interpolation answers null.
\<close>

definition fromValue :: "SkPath \<Rightarrow> CurvePair \<Rightarrow> real \<Rightarrow> SkPath" where
  "fromValue straight previousValue progress =
     (let from = orElse (cp_to previousValue) straight
      in case cp_from previousValue of
           None \<Rightarrow> from
         | Some previousFrom \<Rightarrow>
             if progress < 1 then orElse (interpolate from previousFrom progress) from
             else from)"

definition fromValues :: "SkPath \<Rightarrow> CurvePair list \<Rightarrow> real list \<Rightarrow> SkPath list" where
  "fromValues straight previousValues progresses =
     map (\<lambda>(previousValue, progress). fromValue straight previousValue progress)
       (zip previousValues progresses)"

definition newPair :: "SkPath \<Rightarrow> SkPath \<Rightarrow> CurvePair" where
  "newPair path from =
     (if isInterpolatable path from
      then \<lparr> cp_from = Some from, cp_to = Some path \<rparr>
      else \<lparr> cp_from = Some path, cp_to = Some path \<rparr>)"

fun builtPath :: "path_slot \<Rightarrow> SkPath" where
  "builtPath (Built path) = path"
| "builtPath Unbuilt = []"

text \<open>
  The block that is to publish the fill's pair is guarded by the first entry of the
  local array \<open>_gradientPaths\<close>, which is made of nulls and never written. Were the entry
  a curve, its \<open>current\<close> would be undefined and reading \<open>previous.to\<close> would throw.
\<close>

definition gradientBlock :: "SkPath option list \<Rightarrow> cells \<Rightarrow> (error \<times> cells) + cells" where
  "gradientBlock gradientPaths' c =
     (case gradientPaths' of
        Some g # _ \<Rightarrow> Inl (TypeError, c)
      | _ \<Rightarrow> Inr c)"

text \<open>
  The effect: nothing happens before the canvas is measured or while a series has no
  point in range. Otherwise the curves are built, their commands stored, and for every
  series the new pair is published. \<open>setCommandsChanged[index](_commandsChanged[index] + 1)\<close>
  indexes a number, so every counter is set to not-a-number. At its end the effect hands
  every progress cell to the spring driver, which runs it from 0 to 1.
\<close>

definition rebuild ::
  "(GraphPathConfig \<Rightarrow> SkPath) \<Rightarrow> (GraphPathConfig \<Rightarrow> SkPath \<times> SkPath) \<Rightarrow> render \<Rightarrow> cells
     \<Rightarrow> (error \<times> cells) + cells" where
  "rebuild createGraphPath createGraphPathWithGradient r c =
     (if height r < 1 \<or> width r < 1 then Inr c
      else if filter (\<lambda>points. length points < 1) (pointsInRanges r) \<noteq> [] then Inr c
      else
        (case buildPaths createGraphPath createGraphPathWithGradient r c of
           Inl failure \<Rightarrow> Inl failure
         | Inr (paths, c1) \<Rightarrow>
             (case setCommands paths (commands c1) of
                Inl (e, cs) \<Rightarrow> Inl (e, c1\<lparr>commands := cs\<rparr>)
              | Inr cs \<Rightarrow>
                  (case gradientBlock (replicate (length (pointsInRanges r)) None)
                          (c1\<lparr>commands := cs\<rparr>) of
                     Inl failure \<Rightarrow> Inl failure
                   | Inr c2 \<Rightarrow>
                       Inr (c2\<lparr> pathsValues :=
                                  map (\<lambda>(path, from). newPair (builtPath path) from)
                                    (zip paths
                                      (fromValues (straightLine (width r) (height r))
                                         (pathsValues c2) (interpolateProgresses r))),
                                commandsChanged := map (\<lambda>_. NaN) (commandsChanged c2) \<rparr>)))))"

subsection \<open>Inverse sampling\<close>

text \<open>
  Modelled from the spec: \<open>getYForX\<close> (GetYForX) is not under src. The walk keeps the pen
  position, which starts at the origin; the first cubic segment whose horizontal span
  brackets the query is solved for its parameter by bisection on the x-component, and the
  y-component is evaluated there. A segment of no horizontal extent is skipped. An empty
  sequence, or a query no segment brackets, gives no value. The number of bisection steps
  is the parameter \<open>precision\<close>.
\<close>

type_synonym vec = "real \<times> real"

record segment =
  seg_from :: vec
  seg_c1 :: vec
  seg_c2 :: vec
  seg_to :: vec

fun selectCurve :: "vec \<Rightarrow> PathCommand list \<Rightarrow> real \<Rightarrow> segment option" where
  "selectCurve pen [] x = None"
| "selectCurve pen (MoveTo px py # cmds) x = selectCurve (px, py) cmds x"
| "selectCurve pen (LineTo px py # cmds) x = selectCurve (px, py) cmds x"
| "selectCurve pen (CubicTo x1 y1 x2 y2 x3 y3 # cmds) x =
     (if fst pen < x3 \<and> fst pen \<le> x \<and> x \<le> x3
      then Some \<lparr> seg_from = pen, seg_c1 = (x1, y1), seg_c2 = (x2, y2), seg_to = (x3, y3) \<rparr>
      else selectCurve (x3, y3) cmds x)"

definition cubicAt :: "real \<Rightarrow> real \<Rightarrow> real \<Rightarrow> real \<Rightarrow> real \<Rightarrow> real" where
  "cubicAt p0 p1 p2 p3 t =
     (1 - t) ^ 3 * p0 + 3 * (1 - t) ^ 2 * t * p1 + 3 * (1 - t) * t ^ 2 * p2 + t ^ 3 * p3"

fun bisect :: "nat \<Rightarrow> (real \<Rightarrow> real) \<Rightarrow> real \<Rightarrow> real \<Rightarrow> real \<Rightarrow> real" where
  "bisect 0 f x lo hi = (lo + hi) / 2"
| "bisect (Suc n) f x lo hi =
     (let mid = (lo + hi) / 2
      in if f mid < x then bisect n f x mid hi else bisect n f x lo mid)"

definition cubicBezierYForX :: "nat \<Rightarrow> real \<Rightarrow> segment \<Rightarrow> real" where
  "cubicBezierYForX precision x s =
     (let t = bisect precision
                (cubicAt (fst (seg_from s)) (fst (seg_c1 s)) (fst (seg_c2 s)) (fst (seg_to s)))
                x 0 1
      in cubicAt (snd (seg_from s)) (snd (seg_c1 s)) (snd (seg_c2 s)) (snd (seg_to s)) t)"

definition getYForX :: "nat \<Rightarrow> PathCommand list \<Rightarrow> real \<Rightarrow> real option" where
  "getYForX precision cmds x =
     (case selectCurve (0, 0) cmds x of
        None \<Rightarrow> None
      | Some s \<Rightarrow> Some (cubicBezierYForX precision x s))"

text \<open>
  The horizontal extent of a curve: the x-coordinates the pen visits, the origin among
  them when the sequence does not open with a move.
\<close>

fun anchorXs :: "PathCommand list \<Rightarrow> real list" where
  "anchorXs [] = []"
| "anchorXs (MoveTo px py # cmds) = px # anchorXs cmds"
| "anchorXs (LineTo px py # cmds) = px # anchorXs cmds"
| "anchorXs (CubicTo x1 y1 x2 y2 x3 y3 # cmds) = x3 # anchorXs cmds"

fun extentXs :: "PathCommand list \<Rightarrow> real list" where
  "extentXs (MoveTo px py # cmds) = px # anchorXs cmds"
| "extentXs cmds = 0 # anchorXs cmds"

definition leftOf :: "real \<Rightarrow> PathCommand list \<Rightarrow> bool" where
  "leftOf x cmds = list_all (\<lambda>a. x < a) (extentXs cmds)"

definition rightOf :: "real \<Rightarrow> PathCommand list \<Rightarrow> bool" where
  "rightOf x cmds = list_all (\<lambda>a. a < x) (extentXs cmds)"

subsection \<open>The indicator\<close>

definition drawingWidth :: "'a paddings_scheme \<Rightarrow> int \<Rightarrow> real" where
  "drawingWidth r width' = real_of_int width' - 2 * horizontalPadding r"

text \<open>
  \<open>getXInRange\<close> (CreateGraphPath) is not under src and is a parameter: the horizontal
  offset of a date within a drawing width and an x-range.
\<close>

definition lineWidth ::
  "(real \<Rightarrow> real \<Rightarrow> GraphXRange \<Rightarrow> real) \<Rightarrow> real \<Rightarrow> GraphPoint list \<Rightarrow> GraphPathRange \<Rightarrow> real" where
  "lineWidth getXInRange drawingWidth' points range' =
     (case points of
        [] \<Rightarrow> drawingWidth'
      | _ \<Rightarrow> max (getXInRange drawingWidth' (date (last points)) (x_range range')) 0)"

definition indicatorX :: "real \<Rightarrow> real \<Rightarrow> real" where
  "indicatorX lineWidth' horizontalPadding' = of_int \<lfloor>lineWidth'\<rfloor> + horizontalPadding'"

text \<open>\<open>getYForX(...) || 0\<close>: no value, like a zero, becomes 0.\<close>

definition indicatorY :: "nat \<Rightarrow> PathCommand list \<Rightarrow> real \<Rightarrow> real" where
  "indicatorY precision cmds indicatorX' =
     (case getYForX precision cmds indicatorX' of
        None \<Rightarrow> 0
      | Some y \<Rightarrow> if y = 0 then 0 else y)"

subsection \<open>Pointer movement\<close>

text \<open>The selection dot of one series and the end of its highlighted stroke.\<close>

record dot =
  circleX :: real
  circleY :: real
  pathEnd :: jsnum

definition setFingerX :: "nat \<Rightarrow> PathCommand list \<Rightarrow> bool \<Rightarrow> int \<Rightarrow> real \<Rightarrow> dot \<Rightarrow> dot" where
  "setFingerX precision cmds isActive width' fingerX d =
     (let d1 = (case getYForX precision cmds fingerX of
                  Some y \<Rightarrow> d\<lparr> circleX := fingerX, circleY := y \<rparr>
                | None \<Rightarrow> d)
      in if isActive then d1\<lparr> pathEnd := js_div fingerX (real_of_int width') \<rparr> else d1)"

text \<open>
  \<open>setFingerPoints[index]\<close>. The one cell \<open>pointSelectedIndex\<close> is threaded through; the
  result lists the calls of \<open>onPointSelected\<close> with their arguments. Reading the date of
  the last point of an empty series throws.
\<close>

type_synonym selection = "jsnum option \<times> (GraphPoint \<times> nat) list"

definition pointIndex ::
  "(real \<Rightarrow> real \<Rightarrow> GraphXRange \<Rightarrow> real) \<Rightarrow> real \<Rightarrow> real \<Rightarrow> GraphPoint list \<Rightarrow> GraphPathRange
     \<Rightarrow> real \<Rightarrow> jsnum" where
  "pointIndex getXInRange horizontalPadding' drawingWidth' points range' fingerX =
     (let fingerXInRange = max (fingerX - horizontalPadding') 0;
          idx = js_round
                  (js_mul
                     (js_div fingerXInRange
                        (getXInRange drawingWidth' (date (last points)) (x_range range')))
                     (real (length points) - 1))
      in js_min (js_max idx 0) (real (length points) - 1))"

definition setFingerPoint ::
  "(real \<Rightarrow> real \<Rightarrow> GraphXRange \<Rightarrow> real) \<Rightarrow> real \<Rightarrow> real \<Rightarrow> GraphPoint list \<Rightarrow> GraphPathRange
     \<Rightarrow> nat \<Rightarrow> real \<Rightarrow> jsnum option \<Rightarrow> error + selection" where
  "setFingerPoint getXInRange horizontalPadding' drawingWidth' points range' index fingerX
       pointSelectedIndex =
     (case points of
        [] \<Rightarrow> Inl TypeError
      | _ \<Rightarrow>
          (let pointIndex' =
                 pointIndex getXInRange horizontalPadding' drawingWidth' points range' fingerX
           in if js_strict_neq pointSelectedIndex pointIndex'
              then (case js_index points pointIndex' of
                      Some dataPoint \<Rightarrow> Inr (Some pointIndex', [(dataPoint, index)])
                    | None \<Rightarrow> Inr (Some pointIndex', []))
              else Inr (pointSelectedIndex, [])))"

text \<open>
  The reaction to a pointer position hands it to \<open>setFingerPoints[index]\<close> of every
  series in turn, when the gesture is active or the position is not 0. The calls run
  one after another on the one cell; the run stops at a call that throws.
\<close>

fun setFingerPoints ::
  "(real \<Rightarrow> real \<Rightarrow> GraphXRange \<Rightarrow> real) \<Rightarrow> real \<Rightarrow> real
     \<Rightarrow> (GraphPoint list \<times> GraphPathRange) list \<Rightarrow> nat \<Rightarrow> real \<Rightarrow> jsnum option
     \<Rightarrow> error + selection" where
  "setFingerPoints getXInRange hp dw [] index fingerX cell = Inr (cell, [])"
| "setFingerPoints getXInRange hp dw ((points, range') # series) index fingerX cell =
     (case setFingerPoint getXInRange hp dw points range' index fingerX cell of
        Inl e \<Rightarrow> Inl e
      | Inr (cell1, called) \<Rightarrow>
          (case setFingerPoints getXInRange hp dw series (Suc index) fingerX cell1 of
             Inl e \<Rightarrow> Inl e
           | Inr (cell2, called') \<Rightarrow> Inr (cell2, called @ called')))"

definition fingerMoved ::
  "(real \<Rightarrow> real \<Rightarrow> GraphXRange \<Rightarrow> real) \<Rightarrow> render \<Rightarrow> bool \<Rightarrow> real \<Rightarrow> jsnum option
     \<Rightarrow> error + selection" where
  "fingerMoved getXInRange r isActive fingerX cell =
     (if isActive \<or> fingerX \<noteq> 0
      then setFingerPoints getXInRange (horizontalPadding r) (drawingWidth r (width r))
             (zip (pointsInRanges r) (pathRanges r)) 0 fingerX cell
      else Inr (cell, []))"

section \<open>Sample collaborators and inputs\<close>

text \<open>
  Modelled from the spec: the Path Builder and \<open>getXInRange\<close> (CreateGraphPath) are not
  under src, and the rebuild and the selection take them as parameters. The worked
  examples instantiate them after the spec's pixel mapping: the fraction of an axis is
  \<open>(v - min) / (max - min)\<close>, and one half on an axis of no span. The stroke is a move to
  the first point and one cubic segment to each further point, with its control points on
  the segment's end; the fill curve appends the two straight segments down to the canvas
  bottom and back to the first x.
\<close>

definition fraction :: "real \<Rightarrow> real \<Rightarrow> real \<Rightarrow> real" where
  "fraction v lo hi = (if hi = lo then 1 / 2 else (v - lo) / (hi - lo))"

definition sample_getXInRange :: "real \<Rightarrow> real \<Rightarrow> GraphXRange \<Rightarrow> real" where
  "sample_getXInRange width' date' xr = width' * fraction date' (xmin xr) (xmax xr)"

definition pixelX :: "GraphPathConfig \<Rightarrow> GraphPoint \<Rightarrow> real" where
  "pixelX props p =
     horizontalPadding props +
     sample_getXInRange (drawingWidth props (canvasWidth props)) (date p) (x_range (pathRange props))"

definition pixelY :: "GraphPathConfig \<Rightarrow> GraphPoint \<Rightarrow> real" where
  "pixelY props p =
     verticalPadding props +
     (1 - fraction (val p) (ymin (y_range (pathRange props))) (ymax (y_range (pathRange props)))) *
       (real_of_int (canvasHeight props) - 2 * verticalPadding props)"

definition sample_createGraphPath :: "GraphPathConfig \<Rightarrow> SkPath" where
  "sample_createGraphPath props =
     (case pointsInRange props of
        [] \<Rightarrow> []
      | p # ps \<Rightarrow>
          MoveTo (pixelX props p) (pixelY props p) #
          map (\<lambda>q. CubicTo (pixelX props q) (pixelY props q) (pixelX props q) (pixelY props q)
                     (pixelX props q) (pixelY props q)) ps)"

definition sample_createGraphPathWithGradient :: "GraphPathConfig \<Rightarrow> SkPath \<times> SkPath" where
  "sample_createGraphPathWithGradient props =
     (case pointsInRange props of
        [] \<Rightarrow> ([], [])
      | p # ps \<Rightarrow>
          (sample_createGraphPath props,
           sample_createGraphPath props @
             [LineTo (pixelX props (last (p # ps))) (real_of_int (canvasHeight props)),
              LineTo (pixelX props p) (real_of_int (canvasHeight props))]))"

definition range_0_10 :: GraphPathRange where
  "range_0_10 = \<lparr> x_range = \<lparr> xmin = 0, xmax = 10 \<rparr>, y_range = \<lparr> ymin = 10, ymax = 20 \<rparr> \<rparr>"

definition points2 :: "GraphPoint list" where
  "points2 = [\<lparr> date = 0, val = 10 \<rparr>, \<lparr> date = 10, val = 20 \<rparr>]"

definition points3 :: "GraphPoint list" where
  "points3 = [\<lparr> date = 0, val = 10 \<rparr>, \<lparr> date = 5, val = 20 \<rparr>, \<lparr> date = 10, val = 10 \<rparr>]"

definition points3b :: "GraphPoint list" where
  "points3b = [\<lparr> date = 0, val = 20 \<rparr>, \<lparr> date = 5, val = 10 \<rparr>, \<lparr> date = 10, val = 20 \<rparr>]"

definition points5 :: "GraphPoint list" where
  "points5 = [\<lparr> date = 0, val = 10 \<rparr>, \<lparr> date = 2, val = 12 \<rparr>, \<lparr> date = 5, val = 20 \<rparr>,
              \<lparr> date = 8, val = 12 \<rparr>, \<lparr> date = 10, val = 10 \<rparr>]"

text \<open>A canvas of 4 by 10 pixels, no padding, the given series, each with the range 0 to 10.\<close>

definition sample_render :: "GraphPoint list list \<Rightarrow> bool \<Rightarrow> real list \<Rightarrow> render" where
  "sample_render series fill progresses =
     \<lparr> horizontalPadding = 0, verticalPadding = 0, width = 4, height = 10,
       pointsInRanges = series, pathRanges = map (\<lambda>_. range_0_10) series,
       shouldFillGradient = fill, interpolateProgresses = progresses \<rparr>"

text \<open>The cells as the component makes them for \<open>n\<close> series.\<close>

definition initial_cells :: "nat \<Rightarrow> cells" where
  "initial_cells n =
     \<lparr> pathsValues = replicate n \<lparr> cp_from = None, cp_to = None \<rparr>,
       gradientPaths = \<lparr> cp_from = None, cp_to = None \<rparr>,
       gradientPaths_0 = None,
       commands = replicate n [],
       commandsChanged = replicate n (Fin 0) \<rparr>"

text \<open>
  The cells after a first rebuild of the one series \<open>points3\<close> on the sample canvas: the
  pair leads from the placeholder to the curve through the three points.
\<close>

definition cells_in_transition :: cells where
  "cells_in_transition =
     \<lparr> pathsValues =
         [\<lparr> cp_from = Some [MoveTo 0 5, CubicTo 0 5 0 5 0 5, CubicTo 2 5 2 5 2 5],
            cp_to = Some [MoveTo 0 10, CubicTo 2 0 2 0 2 0, CubicTo 4 10 4 10 4 10] \<rparr>],
       gradientPaths = \<lparr> cp_from = None, cp_to = None \<rparr>,
       gradientPaths_0 = None,
       commands = [[MoveTo 0 10, CubicTo 2 0 2 0 2 0, CubicTo 4 10 4 10 4 10]],
       commandsChanged = [NaN] \<rparr>"


section \<open>The transition between two curves\<close>

lemma mixCommand_0: "sameVerb a b \<Longrightarrow> mixCommand 0 a b = b"
  by (cases a; cases b) (simp_all add: weighted_def)

lemma mixCommand_1: "sameVerb a b \<Longrightarrow> mixCommand 1 a b = a"
  by (cases a; cases b) (simp_all add: weighted_def)

lemma mixCommands_0: "isInterpolatable this ending \<Longrightarrow> mixCommands 0 this ending = ending"
  by (induction this ending rule: isInterpolatable.induct) (simp_all add: mixCommand_0)

lemma mixCommands_1: "isInterpolatable this ending \<Longrightarrow> mixCommands 1 this ending = this"
  by (induction this ending rule: isInterpolatable.induct) (simp_all add: mixCommand_1)

text \<open>
  C2: for a pair whose \<open>from\<close> and \<open>to\<close> are both present and compatible, the interpolated
  curve at progress 0 is exactly \<open>from\<close> and at progress 1 exactly \<open>to\<close>, for a stroke and
  for the fill.
\<close>

theorem transition_ends:
  assumes "cp_from current = Some from" and "cp_to current = Some to"
    and "isInterpolatable to from"
  shows "paths_value straight current 0 = Some from \<and>
         paths_value straight current 1 = Some to \<and>
         gradientPath_value straight current (0 # progresses) = Inr (Some from) \<and>
         gradientPath_value straight current (1 # progresses) = Inr (Some to)"
  using assms
  by (simp add: paths_value_def gradientPath_value_def interpolate_def mixCommands_0 mixCommands_1)

theorem transition_ends_witness:
  "paths_value [] \<lparr> cp_from = Some [MoveTo 0 5, CubicTo 0 5 0 5 0 5],
                     cp_to = Some [MoveTo 0 10, CubicTo 4 0 4 0 4 0] \<rparr> 0
     = Some [MoveTo 0 5, CubicTo 0 5 0 5 0 5] \<and>
   paths_value [] \<lparr> cp_from = Some [MoveTo 0 5, CubicTo 0 5 0 5 0 5],
                     cp_to = Some [MoveTo 0 10, CubicTo 4 0 4 0 4 0] \<rparr> 1
     = Some [MoveTo 0 10, CubicTo 4 0 4 0 4 0]"
  using transition_ends [of "\<lparr> cp_from = Some [MoveTo 0 5, CubicTo 0 5 0 5 0 5],
                     cp_to = Some [MoveTo 0 10, CubicTo 4 0 4 0 4 0] \<rparr>"
      "[MoveTo 0 5, CubicTo 0 5 0 5 0 5]" "[MoveTo 0 10, CubicTo 4 0 4 0 4 0]" "[]" "[]"]
  by simp

section \<open>The placeholder for an absent curve\<close>








section \<open>The rebuild effect\<close>

lemmas sample_builder_defs =
  sample_createGraphPath_def sample_createGraphPathWithGradient_def pixelX_def pixelY_def
  drawingWidth_def sample_getXInRange_def fraction_def range_0_10_def
  points2_def points3_def points5_def sample_render_def initial_cells_def

lemmas sample_defs = sample_builder_defs points3b_def cells_in_transition_def

lemmas rebuild_defs =
  rebuild_def buildPaths_def createGraphPathProps_def toCmds_def gradientBlock_def
  fromValues_def fromValue_def newPair_def interpolate_def weighted_def
  straightLine_def straightLine_loop.simps moveTo_def cubicTo_def

lemma gradientBlock_never: "gradientBlock (replicate n None) c = Inr c"
  by (cases n) (simp_all add: gradientBlock_def)

lemma setCommands_built:
  "setCommands paths cs = Inr cs' \<Longrightarrow> list_all (\<lambda>p. p \<noteq> Unbuilt) paths"
  by (induction paths cs arbitrary: cs' rule: setCommands.induct)
     (auto split: sum.splits prod.splits)

lemma buildPaths_cells:
  "buildPaths cg cgg r c = Inr (paths, c1) \<Longrightarrow>
     pathsValues c1 = pathsValues c \<and> gradientPaths c1 = gradientPaths c \<and>
     commands c1 = commands c \<and> commandsChanged c1 = commandsChanged c"
  by (auto simp: buildPaths_def Let_def split: if_splits list.splits prod.splits)

lemma buildPaths_length:
  "buildPaths cg cgg r c = Inr (paths, c1) \<Longrightarrow> length (pathRanges r) = length (pointsInRanges r)
     \<Longrightarrow> length paths = length (pointsInRanges r)"
  by (auto simp: buildPaths_def createGraphPathProps_def Let_def split: if_splits list.splits prod.splits)

lemma rebuild_pathsValues:
  assumes run: "rebuild cg cgg r c = Inr c'"
    and measured: "1 \<le> height r" "1 \<le> width r"
    and nonempty: "[] \<notin> set (pointsInRanges r)"
    and build: "buildPaths cg cgg r c = Inr (paths, c1)"
  shows "pathsValues c' =
           map (\<lambda>(path, from). newPair (builtPath path) from)
             (zip paths (fromValues (straightLine (width r) (height r)) (pathsValues c)
                (interpolateProgresses r)))"
    and "list_all (\<lambda>p. p \<noteq> Unbuilt) paths"
    and "gradientPaths c' = gradientPaths c"
proof -
  have f: "filter (\<lambda>points. length points < 1) (pointsInRanges r) = []"
    using nonempty by (auto simp: filter_empty_conv)
  from run measured f build obtain cs where
    cs: "setCommands paths (commands c1) = Inr cs"
    and c': "c' = c1\<lparr>commands := cs,
        pathsValues := map (\<lambda>(path, from). newPair (builtPath path) from)
             (zip paths (fromValues (straightLine (width r) (height r)) (pathsValues c1)
                (interpolateProgresses r))),
        commandsChanged := map (\<lambda>_. NaN) (commandsChanged c1)\<rparr>"
    by (auto simp: rebuild_def gradientBlock_never split: sum.splits prod.splits)
  from cs show "list_all (\<lambda>p. p \<noteq> Unbuilt) paths" by (rule setCommands_built)
  from c' buildPaths_cells [OF build] show "pathsValues c' =
           map (\<lambda>(path, from). newPair (builtPath path) from)
             (zip paths (fromValues (straightLine (width r) (height r)) (pathsValues c)
                (interpolateProgresses r)))" by simp
  from c' buildPaths_cells [OF build] show "gradientPaths c' = gradientPaths c" by simp
qed

lemma rebuild_pair_at:
  assumes run: "rebuild cg cgg r c = Inr c'"
    and measured: "1 \<le> height r" "1 \<le> width r"
    and nonempty: "[] \<notin> set (pointsInRanges r)"
    and wf: "well_formed r c"
    and index: "index < length (pointsInRanges r)"
    and build: "buildPaths cg cgg r c = Inr (paths, c1)"
  shows "\<exists>path. paths ! index = Built path \<and>
           pathsValues c' ! index =
             newPair path (fromValue (straightLine (width r) (height r))
               (pathsValues c ! index) (interpolateProgresses r ! index))"
proof -
  note pv = rebuild_pathsValues [OF run measured nonempty build]
  from wf have len: "length (pathRanges r) = length (pointsInRanges r)"
      "length (interpolateProgresses r) = length (pointsInRanges r)"
      "length (pathsValues c) = length (pointsInRanges r)"
    by (simp_all add: well_formed_def)
  have lp: "length paths = length (pointsInRanges r)"
    using buildPaths_length [OF build len(1)] .
  from pv(2) index lp have "paths ! index \<noteq> Unbuilt"
    by (simp add: list_all_length)
  then obtain path where path: "paths ! index = Built path"
    by (cases "paths ! index") simp_all
  have "pathsValues c' ! index =
      newPair path (fromValue (straightLine (width r) (height r))
               (pathsValues c ! index) (interpolateProgresses r ! index))"
    using index lp len path by (simp add: pv(1) fromValues_def)
  with path show ?thesis by blast
qed

lemma buildPaths_slot:
  assumes build: "buildPaths cg cgg r c = Inr (paths, c1)"
    and built: "list_all (\<lambda>p. p \<noteq> Unbuilt) paths"
    and len: "length (pathRanges r) = length (pointsInRanges r)"
    and index: "index < length (pointsInRanges r)"
  shows "paths ! index =
     Built (if shouldFillGradient r then fst (cgg (createGraphPathProps r ! index))
            else cg (createGraphPathProps r ! index))"
proof (cases "shouldFillGradient r")
  case False
  with build have "paths = map (\<lambda>props. Built (cg props)) (createGraphPathProps r)"
    by (simp add: buildPaths_def)
  moreover have "length (createGraphPathProps r) = length (pointsInRanges r)"
    by (simp add: createGraphPathProps_def len)
  ultimately show ?thesis using False index by simp
next
  case True
  with build obtain props0 rest where props: "createGraphPathProps r = props0 # rest"
    and paths: "paths = (replicate (length (pointsInRanges r)) Unbuilt)[0 := Built (fst (cgg props0))]"
    by (auto simp: buildPaths_def Let_def split: list.splits prod.splits)
  have "index = 0"
  proof (rule ccontr)
    assume "index \<noteq> 0"
    with index have "paths ! index = Unbuilt" by (simp add: paths)
    moreover from built index have "paths ! index \<noteq> Unbuilt"
      by (simp add: list_all_length paths)
    ultimately show False by simp
  qed
  with index True show ?thesis by (simp add: paths props)
qed

lemma fromValue_reached:
  "\<not> progress < 1 \<Longrightarrow> fromValue straight previous progress = orElse (cp_to previous) straight"
  by (simp add: fromValue_def Let_def split: option.splits)

lemma fromValue_in_flight:
  "cp_from previous = Some previousFrom \<Longrightarrow> progress < 1 \<Longrightarrow>
   interpolate (orElse (cp_to previous) straight) previousFrom progress = Some mid \<Longrightarrow>
   fromValue straight previous progress = mid"
  by (simp add: fromValue_def Let_def)

text \<open>
  C6: a rebuild in which some series has no point in range returns at once: it throws
  nothing and leaves every cell as it was, so no curve of that render is published.
\<close>

theorem rebuild_empty_series:
  assumes "[] \<in> set (pointsInRanges r)"
  shows "rebuild createGraphPath createGraphPathWithGradient r c = Inr c"
proof -
  from assms have "filter (\<lambda>points. length points < 1) (pointsInRanges r) \<noteq> []"
    by (auto simp: filter_empty_conv)
  then show ?thesis by (simp add: rebuild_def)
qed

theorem rebuild_empty_series_witness:
  "rebuild sample_createGraphPath sample_createGraphPathWithGradient
     (sample_render [points3, []] False [0, 0]) (initial_cells 2) = Inr (initial_cells 2)"
  using rebuild_empty_series [of "sample_render [points3, []] False [0, 0]"
      sample_createGraphPath sample_createGraphPathWithGradient "initial_cells 2"]
  by (simp add: sample_render_def)

text \<open>
  C1 (amended): in a rebuild that runs to its end (canvas measured, no series empty, the
  cells made for the series of the render), the new pair of every series has as its \<open>to\<close>
  the curve the Path Builder has just returned for the series. When the previous \<open>from\<close> is present, the progress
  is below 1 and the previous \<open>to\<close> and \<open>from\<close> interpolate, the new \<open>from\<close> is their
  interpolation at the progress, provided the fresh curve is compatible with it; when the
  progress is not below 1, the new \<open>from\<close> is the previous \<open>to\<close> (the placeholder when
  absent), provided the fresh curve is compatible with it; and whenever the fresh curve is
  not compatible with the curve so chosen, the new \<open>from\<close> is the fresh curve itself.
\<close>

theorem rebuild_publishes:
  fixes r :: render and c :: cells
  defines "straight \<equiv> straightLine (width r) (height r)"
  defines "previous \<equiv> \<lambda>index. pathsValues c ! index"
  defines "progress \<equiv> \<lambda>index. interpolateProgresses r ! index"
  defines "previousTo \<equiv> \<lambda>index. orElse (cp_to (previous index)) straight"
  assumes run: "rebuild createGraphPath createGraphPathWithGradient r c = Inr c'"
    and measured: "1 \<le> height r" "1 \<le> width r"
    and nonempty: "[] \<notin> set (pointsInRanges r)"
    and wf: "well_formed r c"
    and index: "index < length (pointsInRanges r)"
    and fresh: "path = (if shouldFillGradient r
                        then fst (createGraphPathWithGradient (createGraphPathProps r ! index))
                        else createGraphPath (createGraphPathProps r ! index))"
  shows "cp_to (pathsValues c' ! index) = Some path \<and>
      (\<forall>previousFrom mid.
          cp_from (previous index) = Some previousFrom \<and> progress index < 1 \<and>
          interpolate (previousTo index) previousFrom (progress index) = Some mid \<and>
          isInterpolatable path mid
          \<longrightarrow> cp_from (pathsValues c' ! index) = Some mid) \<and>
      (\<not> progress index < 1 \<and> isInterpolatable path (previousTo index)
          \<longrightarrow> cp_from (pathsValues c' ! index) = Some (previousTo index)) \<and>
      (\<not> isInterpolatable path (fromValue straight (previous index) (progress index))
          \<longrightarrow> cp_from (pathsValues c' ! index) = Some path)"
proof -
  have f: "filter (\<lambda>points. length points < 1) (pointsInRanges r) = []"
    using nonempty by (auto simp: filter_empty_conv)
  from run measured f obtain paths c1 where
    build: "buildPaths createGraphPath createGraphPathWithGradient r c = Inr (paths, c1)"
    by (auto simp: rebuild_def split: sum.splits)
  from wf have len: "length (pathRanges r) = length (pointsInRanges r)"
    by (simp add: well_formed_def)
  from rebuild_pair_at [OF run measured nonempty wf index build]
  obtain path' where path': "paths ! index = Built path'"
    and pair: "pathsValues c' ! index =
        newPair path' (fromValue straight (previous index) (progress index))"
    unfolding straight_def previous_def progress_def by blast
  from buildPaths_slot [OF build rebuild_pathsValues(2) [OF run measured nonempty build] len index]
    path' fresh
  have "path' = path" by simp
  note pair = pair [unfolded this]
  have "cp_to (pathsValues c' ! index) = Some path"
    by (simp add: pair newPair_def)
  moreover have "cp_from (pathsValues c' ! index) = Some mid"
    if "cp_from (previous index) = Some previousFrom" "progress index < 1"
      "interpolate (previousTo index) previousFrom (progress index) = Some mid"
      "isInterpolatable path mid" for previousFrom mid
    using that fromValue_in_flight [of "previous index" previousFrom "progress index" straight mid]
    by (simp add: pair newPair_def previousTo_def)
  moreover have "cp_from (pathsValues c' ! index) = Some (previousTo index)"
    if "\<not> progress index < 1" "isInterpolatable path (previousTo index)"
    using that by (simp add: pair newPair_def fromValue_reached previousTo_def)
  moreover have "cp_from (pathsValues c' ! index) = Some path"
    if "\<not> isInterpolatable path (fromValue straight (previous index) (progress index))"
    using that by (simp add: pair newPair_def)
  ultimately show ?thesis by blast
qed

theorem rebuild_publishes_witness:
  "rebuild sample_createGraphPath sample_createGraphPathWithGradient
     (sample_render [points3b] False [1 / 2]) cells_in_transition =
   Inr \<lparr> pathsValues =
           [\<lparr> cp_from = Some [MoveTo 0 (15 / 2), CubicTo 1 (5 / 2) 1 (5 / 2) 1 (5 / 2),
                             CubicTo 3 (15 / 2) 3 (15 / 2) 3 (15 / 2)],
              cp_to = Some [MoveTo 0 0, CubicTo 2 10 2 10 2 10, CubicTo 4 0 4 0 4 0] \<rparr>],
         gradientPaths = \<lparr> cp_from = None, cp_to = None \<rparr>,
         gradientPaths_0 = None,
         commands = [[MoveTo 0 0, CubicTo 2 10 2 10 2 10, CubicTo 4 0 4 0 4 0]],
         commandsChanged = [NaN] \<rparr> \<and>
   interpolate [MoveTo 0 10, CubicTo 2 0 2 0 2 0, CubicTo 4 10 4 10 4 10]
       [MoveTo 0 5, CubicTo 0 5 0 5 0 5, CubicTo 2 5 2 5 2 5] (1 / 2) =
     Some [MoveTo 0 (15 / 2), CubicTo 1 (5 / 2) 1 (5 / 2) 1 (5 / 2),
           CubicTo 3 (15 / 2) 3 (15 / 2) 3 (15 / 2)] \<and>
   sample_createGraphPath (createGraphPathProps (sample_render [points3b] False [1 / 2]) ! 0) =
     [MoveTo 0 0, CubicTo 2 10 2 10 2 10, CubicTo 4 0 4 0 4 0]"
  (is "?run \<and> ?mid \<and> ?fresh")
proof -
  have run: ?run
    by (simp add: rebuild_defs sample_defs)
  have wf: "well_formed (sample_render [points3b] False [1 / 2]) cells_in_transition"
    by (simp add: well_formed_def sample_defs)
  have "cp_to (pathsValues
      \<lparr> pathsValues =
           [\<lparr> cp_from = Some [MoveTo 0 (15 / 2), CubicTo 1 (5 / 2) 1 (5 / 2) 1 (5 / 2),
                             CubicTo 3 (15 / 2) 3 (15 / 2) 3 (15 / 2)],
              cp_to = Some [MoveTo 0 0, CubicTo 2 10 2 10 2 10, CubicTo 4 0 4 0 4 0] \<rparr>],
         gradientPaths = \<lparr> cp_from = None, cp_to = None \<rparr>,
         gradientPaths_0 = None,
         commands = [[MoveTo 0 0, CubicTo 2 10 2 10 2 10, CubicTo 4 0 4 0 4 0]],
         commandsChanged = [NaN] \<rparr> ! 0) =
      Some (sample_createGraphPath
        (createGraphPathProps (sample_render [points3b] False [1 / 2]) ! 0))"
    using rebuild_publishes [OF run _ _ _ wf, of 0
        "sample_createGraphPath (createGraphPathProps (sample_render [points3b] False [1 / 2]) ! 0)"]
    by (simp add: sample_render_def points3b_def)
  then have ?fresh by simp
  moreover have ?mid by (simp add: interpolate_def weighted_def)
  ultimately show ?thesis using run by simp
qed

text \<open>
  Against C1 as stated: the previous pair leads from the placeholder to a curve of three
  commands and the progress is one half; the fresh curve has two commands. The new \<open>from\<close>
  is the fresh curve, not the interpolation of the previous pair.
\<close>

theorem rebuild_hard_cut_counterexample:
  "rebuild sample_createGraphPath sample_createGraphPathWithGradient
     (sample_render [points2] False [1 / 2]) cells_in_transition =
   Inr \<lparr> pathsValues =
           [\<lparr> cp_from = Some [MoveTo 0 10, CubicTo 4 0 4 0 4 0],
              cp_to = Some [MoveTo 0 10, CubicTo 4 0 4 0 4 0] \<rparr>],
         gradientPaths = \<lparr> cp_from = None, cp_to = None \<rparr>,
         gradientPaths_0 = None,
         commands = [[MoveTo 0 10, CubicTo 4 0 4 0 4 0]],
         commandsChanged = [NaN] \<rparr> \<and>
   interpolate [MoveTo 0 10, CubicTo 2 0 2 0 2 0, CubicTo 4 10 4 10 4 10]
       [MoveTo 0 5, CubicTo 0 5 0 5 0 5, CubicTo 2 5 2 5 2 5] (1 / 2) =
     Some [MoveTo 0 (15 / 2), CubicTo 1 (5 / 2) 1 (5 / 2) 1 (5 / 2),
           CubicTo 3 (15 / 2) 3 (15 / 2) 3 (15 / 2)] \<and>
   Some [MoveTo 0 10, CubicTo 4 0 4 0 4 0] \<noteq>
     Some [MoveTo 0 (15 / 2), CubicTo 1 (5 / 2) 1 (5 / 2) 1 (5 / 2),
           CubicTo 3 (15 / 2) 3 (15 / 2) 3 (15 / 2)]"
  by (simp add: rebuild_defs sample_defs)

lemma rebuild_keeps_gradientPaths:
  "rebuild cg cgg r c = Inr c' \<Longrightarrow> gradientPaths c' = gradientPaths c"
  by (auto simp: rebuild_def gradientBlock_never dest!: buildPaths_cells
      split: if_splits sum.splits prod.splits)

lemma rebuild_throw_keeps_pairs:
  "rebuild cg cgg r c = Inl (e, c') \<Longrightarrow>
     gradientPaths c' = gradientPaths c \<and> pathsValues c' = pathsValues c"
  by (auto simp: rebuild_def gradientBlock_never buildPaths_def Let_def dest!: buildPaths_cells
      split: if_splits sum.splits prod.splits list.splits)

text \<open>
  C3, what the code does: one series with a fill, first rebuild. The fresh fill curve is
  not compatible with the placeholder, yet the fill's pair stays as it was, both ends
  absent; the fresh fill curve only reaches the property \<open>0\<close> of the cell.
\<close>

theorem fill_pair_not_published:
  "rebuild sample_createGraphPath sample_createGraphPathWithGradient
     (sample_render [points3] True [0]) (initial_cells 1) =
   Inr \<lparr> pathsValues =
           [\<lparr> cp_from = Some [MoveTo 0 5, CubicTo 0 5 0 5 0 5, CubicTo 2 5 2 5 2 5],
              cp_to = Some [MoveTo 0 10, CubicTo 2 0 2 0 2 0, CubicTo 4 10 4 10 4 10] \<rparr>],
         gradientPaths = \<lparr> cp_from = None, cp_to = None \<rparr>,
         gradientPaths_0 =
           Some [MoveTo 0 10, CubicTo 2 0 2 0 2 0, CubicTo 4 10 4 10 4 10,
                 LineTo 4 10, LineTo 0 10],
         commands = [[MoveTo 0 10, CubicTo 2 0 2 0 2 0, CubicTo 4 10 4 10 4 10]],
         commandsChanged = [NaN] \<rparr> \<and>
   \<not> isInterpolatable
       [MoveTo 0 10, CubicTo 2 0 2 0 2 0, CubicTo 4 10 4 10 4 10, LineTo 4 10, LineTo 0 10]
       (straightLine 4 10)"
  by (simp add: rebuild_defs sample_defs)

lemma two_or_more:
  assumes "2 \<le> length xs"
  shows "\<exists>a b ys. xs = a # b # ys"
proof (cases xs)
  case Nil
  with assms show ?thesis by simp
next
  case (Cons a as)
  with assms show ?thesis by (cases as) simp_all
qed

lemma fill_builds_first_only:
  assumes fill: "shouldFillGradient r" and measured: "1 \<le> height r" "1 \<le> width r"
    and nonempty: "[] \<notin> set (pointsInRanges r)" and wf: "well_formed r c"
    and two: "2 \<le> length (pointsInRanges r)"
  shows "\<exists>c'. rebuild cg cgg r c = Inl (TypeError, c') \<and> pathsValues c' = pathsValues c"
proof -
  have f: "filter (\<lambda>points. length points < 1) (pointsInRanges r) = []"
    using nonempty by (auto simp: filter_empty_conv)
  from two_or_more [OF two] obtain p0 p1 ps where points: "pointsInRanges r = p0 # p1 # ps"
    by blast
  from wf two have "2 \<le> length (pathRanges r)" and "2 \<le> length (commands c)"
    by (simp_all add: well_formed_def)
  then obtain q0 q1 qs k0 k1 ks where
    ranges: "pathRanges r = q0 # q1 # qs" and cmds: "commands c = k0 # k1 # ks"
    by (blast dest: two_or_more)
  obtain props0 rest where props: "createGraphPathProps r = props0 # rest"
    by (simp add: createGraphPathProps_def points ranges)
  obtain pathNew gradientPathNew where new: "cgg props0 = (pathNew, gradientPathNew)"
    by (cases "cgg props0")
  have build: "buildPaths cg cgg r c =
      Inr (Built pathNew # Unbuilt # replicate (length ps) Unbuilt,
           c\<lparr>gradientPaths_0 := Some gradientPathNew\<rparr>)"
    by (simp add: buildPaths_def fill props new points)
  have "setCommands (Built pathNew # Unbuilt # replicate (length ps) Unbuilt) (k0 # k1 # ks) =
      Inl (TypeError, toCmds pathNew # k1 # ks)"
    by simp
  with build have "rebuild cg cgg r c =
      Inl (TypeError, c\<lparr>gradientPaths_0 := Some gradientPathNew,
                         commands := toCmds pathNew # k1 # ks\<rparr>)"
    using measured f by (simp add: rebuild_def cmds)
  then show ?thesis by simp
qed

text \<open>
  C5, what the code does: two series with a fill. Only the first series' curve is built;
  the second slot holds no curve, the effect throws when it asks that slot for its
  commands, and no pair of either series is published.
\<close>

theorem fill_leaves_series_unbuilt:
  "rebuild sample_createGraphPath sample_createGraphPathWithGradient
     (sample_render [points3, points5] True [0, 0]) (initial_cells 2) =
   Inl (TypeError,
     \<lparr> pathsValues = [\<lparr> cp_from = None, cp_to = None \<rparr>, \<lparr> cp_from = None, cp_to = None \<rparr>],
       gradientPaths = \<lparr> cp_from = None, cp_to = None \<rparr>,
       gradientPaths_0 =
         Some [MoveTo 0 10, CubicTo 2 0 2 0 2 0, CubicTo 4 10 4 10 4 10,
               LineTo 4 10, LineTo 0 10],
       commands = [[MoveTo 0 10, CubicTo 2 0 2 0 2 0, CubicTo 4 10 4 10 4 10], []],
       commandsChanged = [Fin 0, Fin 0] \<rparr>)"
  by (simp add: rebuild_defs sample_defs numeral_2_eq_2)

section \<open>Inverse sampling, the selection dot and the indicator\<close>

lemma selectCurve_bracket:
  "selectCurve pen cmds x = Some s \<Longrightarrow>
     (\<exists>a\<in>set (fst pen # anchorXs cmds). a \<le> x) \<and> (\<exists>b\<in>set (fst pen # anchorXs cmds). x \<le> b)"
proof (induction pen cmds x rule: selectCurve.induct)
  case (4 pen x1 y1 x2 y2 x3 y3 cmds x)
  show ?case
  proof (cases "fst pen < x3 \<and> fst pen \<le> x \<and> x \<le> x3")
    case True
    then show ?thesis by auto
  next
    case False
    with 4 have "(\<exists>a\<in>set (x3 # anchorXs cmds). a \<le> x) \<and> (\<exists>b\<in>set (x3 # anchorXs cmds). x \<le> b)"
      by simp
    then show ?thesis by auto
  qed
qed auto

lemma selectCurve_extent:
  assumes "selectCurve (0, 0) cmds x = Some s"
  shows "(\<exists>a\<in>set (extentXs cmds). a \<le> x) \<and> (\<exists>b\<in>set (extentXs cmds). x \<le> b)"
proof (cases cmds)
  case Nil
  with assms show ?thesis by simp
next
  case (Cons c cs)
  show ?thesis
  proof (cases c)
    case (MoveTo px py)
    with Cons assms have "selectCurve (px, py) cs x = Some s" by simp
    from selectCurve_bracket [OF this] show ?thesis by (simp add: Cons MoveTo)
  next
    case (LineTo px py)
    from selectCurve_bracket [OF assms] show ?thesis by (simp add: Cons LineTo)
  next
    case (CubicTo x1 y1 x2 y2 x3 y3)
    from selectCurve_bracket [OF assms] show ?thesis by (simp add: Cons CubicTo)
  qed
qed

lemma getYForX_outside:
  assumes "cmds = [] \<or> leftOf x cmds \<or> rightOf x cmds"
  shows "getYForX precision cmds x = None"
proof (cases "selectCurve (0, 0) cmds x")
  case None
  then show ?thesis by (simp add: getYForX_def)
next
  case (Some s)
  from selectCurve_extent [OF Some] obtain a b where
    "a \<in> set (extentXs cmds)" "a \<le> x" "b \<in> set (extentXs cmds)" "x \<le> b"
    by blast
  moreover from Some have "cmds \<noteq> []" by auto
  ultimately have False
    using assms by (auto simp: leftOf_def rightOf_def list_all_iff)
  then show ?thesis ..
qed

text \<open>
  C7: for a pointer position left or right of every x the curve's pen visits, and for an
  empty command sequence, inverse sampling gives no value (it is a total function: nothing
  is thrown), and the pointer-move worklet leaves both coordinates of the selection dot
  as they were.
\<close>

theorem pointer_outside_curve:
  assumes "cmds = [] \<or> leftOf fingerX cmds \<or> rightOf fingerX cmds"
  shows "getYForX precision cmds fingerX = None \<and>
         circleX (setFingerX precision cmds isActive width' fingerX d) = circleX d \<and>
         circleY (setFingerX precision cmds isActive width' fingerX d) = circleY d"
  using getYForX_outside [OF assms, of precision]
  by (simp add: setFingerX_def)

theorem pointer_outside_curve_witness:
  "getYForX 8 [MoveTo 0 10, CubicTo 2 0 2 0 2 0, CubicTo 4 10 4 10 4 10] 5 = None \<and>
   setFingerX 8 [MoveTo 0 10, CubicTo 2 0 2 0 2 0, CubicTo 4 10 4 10 4 10] True 4 5
       \<lparr> circleX = 1, circleY = 2, pathEnd = Fin 1 \<rparr> =
     \<lparr> circleX = 1, circleY = 2, pathEnd = Fin (5 / 4) \<rparr>"
  using pointer_outside_curve
    [of "[MoveTo 0 10, CubicTo 2 0 2 0 2 0, CubicTo 4 10 4 10 4 10]" 5 8 True 4
        "\<lparr> circleX = 1, circleY = 2, pathEnd = Fin 1 \<rparr>"]
  by (simp add: rightOf_def setFingerX_def js_div_def)

text \<open>
  C10: whenever inverse sampling at the indicator's x gives no value, the indicator's y is
  0; in particular for an empty command sequence and for an x outside the curve's
  horizontal extent.
\<close>

theorem indicator_without_value:
  "(getYForX precision cmds (indicatorX lineWidth' hp) = None \<longrightarrow>
      indicatorY precision cmds (indicatorX lineWidth' hp) = 0) \<and>
   (cmds = [] \<or> leftOf (indicatorX lineWidth' hp) cmds \<or> rightOf (indicatorX lineWidth' hp) cmds \<longrightarrow>
      indicatorY precision cmds (indicatorX lineWidth' hp) = 0)"
  using getYForX_outside [of cmds "indicatorX lineWidth' hp" precision]
  by (auto simp: indicatorY_def)

theorem indicator_without_value_witness:
  "indicatorY 8 [] (indicatorX 4 0) = 0 \<and>
   indicatorY 8 [MoveTo 0 10, CubicTo 2 0 2 0 2 0, CubicTo 4 10 4 10 4 10] (indicatorX (7 / 2) 7) = 0"
  using indicator_without_value [of 8 "[]" 4 0]
    indicator_without_value
      [of 8 "[MoveTo 0 10, CubicTo 2 0 2 0 2 0, CubicTo 4 10 4 10 4 10]" "7 / 2" 7]
  by (simp add: rightOf_def indicatorX_def)

section \<open>The selected sample\<close>

lemma js_strict_neq_Fin: "js_strict_neq cell (Fin a) = (cell \<noteq> Some (Fin a))"
proof (cases cell)
  case None
  then show ?thesis by simp
next
  case (Some v)
  then show ?thesis by (cases v) simp_all
qed

lemma pointIndex_in_range:
  assumes "points \<noteq> []"
    and "getXInRange dw (date (last points)) (x_range range') \<noteq> 0"
  shows "\<exists>k<length points.
           pointIndex getXInRange hp dw points range' fingerX = Fin (real k)"
proof -
  define z where "z = \<lfloor>max (fingerX - hp) 0 /
      getXInRange dw (date (last points)) (x_range range') * (real (length points) - 1) + 1 / 2\<rfloor>"
  define k where "k = nat (min (max z 0) (int (length points) - 1))"
  from assms(1) have n: "1 \<le> length points" by (cases points) simp_all
  with assms(1) have nonneg: "0 \<le> min (max z 0) (int (length points) - 1)" by simp
  have "real k = of_int (min (max z 0) (int (length points) - 1))"
    unfolding k_def using nonneg by simp
  also have "\<dots> = min (max (of_int z) 0) (real (length points) - 1)"
    using n assms(1) by (simp add: of_int_min of_int_max)
  finally have rk: "real k = min (max (of_int z) 0) (real (length points) - 1)" .
  have "pointIndex getXInRange hp dw points range' fingerX =
      Fin (min (max (of_int z) 0) (real (length points) - 1))"
    using assms(2) by (simp add: pointIndex_def js_div_def z_def Let_def)
  with rk have "pointIndex getXInRange hp dw points range' fingerX = Fin (real k)" by simp
  moreover have "k < length points" unfolding k_def using n by linarith
  ultimately show ?thesis by blast
qed

lemma js_index_nat: "k < length xs \<Longrightarrow> js_index xs (Fin (real k)) = Some (xs ! k)"
  by simp

text \<open>
  C8 (amended): for a series with at least one point in range whose last point does not
  map to offset 0, the index computed from the pointer position and the series' points
  and range is the index of a point of the series and does not depend on the cell; the
  cell afterwards holds that index; and the callback is called, with the point at that
  index and the series' index, exactly when the cell did not hold that index before.
\<close>

theorem selection_from_cell:
  assumes "points \<noteq> []"
    and "getXInRange dw (date (last points)) (x_range range') \<noteq> 0"
  shows "\<exists>k<length points.
           pointIndex getXInRange hp dw points range' fingerX = Fin (real k) \<and>
           setFingerPoint getXInRange hp dw points range' index fingerX cell =
             Inr (if cell = Some (Fin (real k)) then (cell, [])
                  else (Some (Fin (real k)), [(points ! k, index)]))"
proof -
  from pointIndex_in_range [of points getXInRange dw range' hp fingerX, OF assms] obtain k where k: "k < length points"
    and pi: "pointIndex getXInRange hp dw points range' fingerX = Fin (real k)"
    by blast
  from assms(1) obtain p ps where points: "points = p # ps" by (cases points) simp_all
  have "setFingerPoint getXInRange hp dw points range' index fingerX cell =
      Inr (if cell = Some (Fin (real k)) then (cell, [])
           else (Some (Fin (real k)), [(points ! k, index)]))"
    unfolding setFingerPoint_def pi Let_def js_strict_neq_Fin js_index_nat [OF k]
    by (simp add: points)
  with k pi show ?thesis by blast
qed

lemmas pointer_defs =
  fingerMoved_def setFingerPoint_def pointIndex_def js_div_def drawingWidth_def
  sample_getXInRange_def fraction_def range_0_10_def sample_render_def
  points2_def points3_def points5_def points3b_def

theorem selection_from_cell_witness:
  "setFingerPoint sample_getXInRange 0 4 points3 range_0_10 0 4 None =
     Inr (Some (Fin 2), [(\<lparr> date = 10, val = 10 \<rparr>, 0)])"
  using selection_from_cell [of points3 sample_getXInRange 4 range_0_10 0 4 0 None]
  by (simp add: pointer_defs)

text \<open>
  Against C8 as stated: the same pointer position and the same points give a call of the
  callback on a fresh cell, none when the same computation ran just before, and a call
  again when the computation for another series, which leaves index 4, ran in between.
\<close>

theorem selection_keeps_state_counterexample:
  "setFingerPoint sample_getXInRange 0 4 points3 range_0_10 0 4 None =
     Inr (Some (Fin 2), [(\<lparr> date = 10, val = 10 \<rparr>, 0)]) \<and>
   setFingerPoint sample_getXInRange 0 4 points3 range_0_10 0 4 (Some (Fin 2)) =
     Inr (Some (Fin 2), []) \<and>
   setFingerPoint sample_getXInRange 0 4 points5 range_0_10 1 4 (Some (Fin 2)) =
     Inr (Some (Fin 4), [(\<lparr> date = 10, val = 10 \<rparr>, 1)]) \<and>
   setFingerPoint sample_getXInRange 0 4 points3 range_0_10 0 4 (Some (Fin 4)) =
     Inr (Some (Fin 2), [(\<lparr> date = 10, val = 10 \<rparr>, 0)])"
  by (simp add: pointer_defs)

text \<open>
  C4, what the code does: with two series of three and of five points, a pointer at the
  right edge selects the last point of each and calls back for both; moving the pointer
  to 3.9, where the nearest point of neither series changes, calls back for both again.
  With two series of three points each, the very first selection calls back for the
  first series only.
\<close>

theorem callbacks_on_shared_cell:
  "fingerMoved sample_getXInRange (sample_render [points3, points5] False [0, 0]) True 4 None =
     Inr (Some (Fin 4), [(\<lparr> date = 10, val = 10 \<rparr>, 0), (\<lparr> date = 10, val = 10 \<rparr>, 1)]) \<and>
   fingerMoved sample_getXInRange (sample_render [points3, points5] False [0, 0]) True (39 / 10)
       (Some (Fin 4)) =
     Inr (Some (Fin 4), [(\<lparr> date = 10, val = 10 \<rparr>, 0), (\<lparr> date = 10, val = 10 \<rparr>, 1)]) \<and>
   fingerMoved sample_getXInRange (sample_render [points3, points3b] False [0, 0]) True 4 None =
     Inr (Some (Fin 2), [(\<lparr> date = 10, val = 10 \<rparr>, 0)])"
  by (simp add: pointer_defs)

end
